theory Spec2Isabelle
  imports Complex_Main
begin

section \<open>Python values, exceptions and inputs\<close>

text \<open>
  The notebooks of this repository are tutorial scripts. The only class they define is
  \<^verbatim>\<open>SimilarityModel\<close> (semantic-similarity-sentence-transformers.ipynb), with the two
  methods \<^verbatim>\<open>load_context\<close> and \<^verbatim>\<open>predict\<close>. Everything else is a call into pandas,
  numpy, sentence-transformers or the tracking client, none of which is part of the
  repository: those libraries are parameters of the model below.
\<close>

text \<open>The Python values that can sit in a DataFrame cell or under a dictionary key.\<close>

datatype pyval =
    PyNone
  | PyStr string
  | PyInt int
  | PyList "pyval list"

text \<open>
  A raised exception: its class name and \<^verbatim>\<open>str(e)\<close>, the text an f-string inserts for
  \<^verbatim>\<open>{e}\<close>. Only subclasses of \<^verbatim>\<open>Exception\<close> are modelled; these are what
  \<^verbatim>\<open>except Exception\<close> catches.
\<close>

datatype py_exception = PyException (exc_class: string) (exc_str: string)

abbreviation ValueError :: "string \<Rightarrow> py_exception" where
  "ValueError msg \<equiv> PyException ''ValueError'' msg"

abbreviation TypeError :: "string \<Rightarrow> py_exception" where
  "TypeError msg \<equiv> PyException ''TypeError'' msg"

abbreviation IndexError :: "string \<Rightarrow> py_exception" where
  "IndexError msg \<equiv> PyException ''IndexError'' msg"

abbreviation AttributeError :: "string \<Rightarrow> py_exception" where
  "AttributeError msg \<equiv> PyException ''AttributeError'' msg"

text \<open>\<^verbatim>\<open>str(KeyError(k))\<close> is the repr of the key: the key between single quotes.\<close>

definition KeyError :: "string \<Rightarrow> py_exception" where
  "KeyError k = PyException ''KeyError'' ([CHR 0x27] @ k @ [CHR 0x27])"

text \<open>\<^verbatim>\<open>str(n)\<close> of a natural number: its decimal digits.\<close>

fun show_nat :: "nat \<Rightarrow> string" where
  "show_nat n =
     (if n < 10 then [''0123456789'' ! n]
      else show_nat (n div 10) @ [''0123456789'' ! (n mod 10)])"

declare show_nat.simps [simp del]

text \<open>
  A pandas DataFrame: its column labels and its rows. \<^verbatim>\<open>shape[1]\<close> is the number of
  columns. \<^verbatim>\<open>iloc[i, j]\<close> with two integers reads one cell by position: it takes column
  \<open>j\<close>, then entry \<open>i\<close> of that column, and an index that is out of bounds raises the
  IndexError of the underlying array, which names the index and the size. On a frame
  without rows \<^verbatim>\<open>iloc[0, 0]\<close> raises
  \<^verbatim>\<open>IndexError: index 0 is out of bounds for axis 0 with size 0\<close>.
  Rows as pandas holds them have one cell per column; a row given shorter has no cell to
  read there.
\<close>

record frame =
  columns :: "string list"
  rows :: "pyval list list"

definition shape :: "frame \<Rightarrow> nat \<times> nat" where
  "shape df = (length (rows df), length (columns df))"

definition out_of_bounds :: "nat \<Rightarrow> nat \<Rightarrow> py_exception" where
  "out_of_bounds i n =
     IndexError (''index '' @ show_nat i @ '' is out of bounds for axis 0 with size ''
                 @ show_nat n)"

definition iloc :: "frame \<Rightarrow> nat \<Rightarrow> nat \<Rightarrow> py_exception + pyval" where
  "iloc df i j =
     (if length (columns df) \<le> j then Inl (out_of_bounds j (length (columns df)))
      else if length (rows df) \<le> i then Inl (out_of_bounds i (length (rows df)))
      else if length (rows df ! i) \<le> j then Inl (out_of_bounds j (length (rows df ! i)))
      else Inr (rows df ! i ! j))"

text \<open>
  What \<^verbatim>\<open>predict\<close> can be handed as \<^verbatim>\<open>model_input\<close>: a DataFrame, a dict, or a value
  of any other type, of which only the type's name matters (it goes into the message).
\<close>

datatype model_input =
    DataFrame frame
  | Dict "string \<rightharpoonup> pyval"
  | Other string

text \<open>\<^verbatim>\<open>d.get(k)\<close>: the value under the key, None when the key is absent.\<close>

definition get :: "(string \<rightharpoonup> pyval) \<Rightarrow> string \<Rightarrow> pyval" where
  "get d k = (case d k of None \<Rightarrow> PyNone | Some v \<Rightarrow> v)"

section \<open>The libraries the adapter delegates to\<close>

text \<open>
  A torch tensor as \<^verbatim>\<open>util.cos_sim\<close> returns it (always two-dimensional) with its
  \<^verbatim>\<open>tolist()\<close>, and a numpy array built by \<^verbatim>\<open>np.array\<close> from such a nested list. The
  scalar type \<open>'f\<close> stands for the floating point numbers, which are not interpreted.
\<close>

datatype 'f tensor = Tensor (tolist: "'f list list")

datatype 'f ndarray = np_array (entries: "'f list list")

text \<open>
  The sentence-transformers library: \<^verbatim>\<open>SentenceTransformer.load(path)\<close>,
  \<^verbatim>\<open>model.encode(sentence)\<close> and \<^verbatim>\<open>util.cos_sim(a, b)\<close>. Each call either returns or
  raises. \<open>'m\<close> is the type of model handles, \<open>'e\<close> of embeddings.
\<close>

record ('m, 'e, 'f) library =
  SentenceTransformer_load :: "string \<Rightarrow> py_exception + 'm"
  encode :: "'m \<Rightarrow> pyval \<Rightarrow> py_exception + 'e"
  cos_sim :: "'e \<Rightarrow> 'e \<Rightarrow> py_exception + 'f tensor"

text \<open>The calls made into the library, in the order they are made.\<close>

datatype ('m, 'e) call =
    Load_call string
  | Encode_call 'm pyval
  | Cos_sim_call 'e 'e

section \<open>The adapter class\<close>

text \<open>
  An instance of \<^verbatim>\<open>SimilarityModel\<close>: its only attribute of its own is \<^verbatim>\<open>self.model\<close>,
  absent until \<^verbatim>\<open>load_context\<close> has assigned it. Any further attributes are the
  record's extension.
\<close>

record 'm SimilarityModel =
  model :: "'m option"

text \<open>The loading context: the \<^verbatim>\<open>artifacts\<close> dictionary of names to local paths.\<close>

record PythonModelContext =
  artifacts :: "string \<rightharpoonup> string"

text \<open>
  A method call returns the instance afterwards, the library calls it made, and either
  the raised exception or the returned value.
\<close>

type_synonym ('s, 'm, 'e, 'r) outcome = "'s \<times> ('m, 'e) call list \<times> (py_exception + 'r)"

text \<open>
  \<^verbatim>\<open>
  def load_context(self, context):
      try:
          self.model = SentenceTransformer.load(context.artifacts["model_path"])
      except Exception as e:
          raise ValueError(f"Error loading model: {e}")
  \<close>
  The subscript raises KeyError inside the \<^verbatim>\<open>try\<close> when the key is absent.
\<close>

definition load_context ::
  "('m, 'e, 'f) library \<Rightarrow> ('m, 'z) SimilarityModel_scheme \<Rightarrow> PythonModelContext
     \<Rightarrow> (('m, 'z) SimilarityModel_scheme, 'm, 'e, unit) outcome" where
  "load_context lib self ctx =
     (case artifacts ctx ''model_path'' of
        None \<Rightarrow>
          (self, [], Inl (ValueError (''Error loading model: '' @ exc_str (KeyError ''model_path''))))
      | Some path \<Rightarrow>
          (case SentenceTransformer_load lib path of
             Inl e \<Rightarrow> (self, [Load_call path], Inl (ValueError (''Error loading model: '' @ exc_str e)))
           | Inr m \<Rightarrow> (self\<lparr>model := Some m\<rparr>, [Load_call path], Inr ())))"

text \<open>
  \<^verbatim>\<open>
  def predict(self, context, model_input, params):
      if isinstance(model_input, pd.DataFrame):
          if model_input.shape[1] != 2:
              raise ValueError("DataFrame input must have exactly two columns.")
          sentence_1, sentence_2 = model_input.iloc[0, 0], model_input.iloc[0, 1]
      elif isinstance(model_input, dict):
          sentence_1 = model_input.get("sentence_1")
          sentence_2 = model_input.get("sentence_2")
          if sentence_1 is None or sentence_2 is None:
              raise ValueError(
                  "Both 'sentence_1' and 'sentence_2' must be provided in the input dictionary."
              )
      else:
          raise TypeError(
              f"Unexpected type for model_input: {type(model_input)}. Must be either a Dict or a DataFrame."
          )

      embedding_1 = self.model.encode(sentence_1)
      embedding_2 = self.model.encode(sentence_2)

      return np.array(util.cos_sim(embedding_1, embedding_2).tolist())
  \<close>
  \<^verbatim>\<open>context\<close> and \<^verbatim>\<open>params\<close> are not read. Reading \<^verbatim>\<open>self.model\<close> on an instance
  that was never loaded raises AttributeError.
\<close>

definition predict ::
  "('m, 'e, 'f) library \<Rightarrow> ('m, 'z) SimilarityModel_scheme \<Rightarrow> model_input
     \<Rightarrow> (('m, 'z) SimilarityModel_scheme, 'm, 'e, 'f ndarray) outcome" where
  "predict lib self model_input =
     (case
        (case model_input of
           DataFrame df \<Rightarrow>
             (if snd (shape df) \<noteq> 2
              then Inl (ValueError ''DataFrame input must have exactly two columns.'')
              else (case iloc df 0 0 of
                      Inl e \<Rightarrow> Inl e
                    | Inr sentence_1 \<Rightarrow>
                        (case iloc df 0 1 of
                           Inl e \<Rightarrow> Inl e
                         | Inr sentence_2 \<Rightarrow> Inr (sentence_1, sentence_2))))
         | Dict d \<Rightarrow>
             (let sentence_1 = get d ''sentence_1'';
                  sentence_2 = get d ''sentence_2''
              in if sentence_1 = PyNone \<or> sentence_2 = PyNone
                 then Inl (ValueError
                   ''Both 'sentence_1' and 'sentence_2' must be provided in the input dictionary.'')
                 else Inr (sentence_1, sentence_2))
         | Other ty \<Rightarrow>
             Inl (TypeError (''Unexpected type for model_input: <class ''
                    @ [CHR 0x27] @ ty @ [CHR 0x27]
                    @ ''>. Must be either a Dict or a DataFrame.'')))
      of
        Inl e \<Rightarrow> (self, [], Inl e)
      | Inr (sentence_1, sentence_2) \<Rightarrow>
          (case model self of
             None \<Rightarrow>
               (self, [],
                Inl (AttributeError (CHR 0x27 # ''SimilarityModel'' @ [CHR 0x27] @ '' object has no attribute '' @ [CHR 0x27] @ ''model'' @ [CHR 0x27])))
           | Some m \<Rightarrow>
               (case encode lib m sentence_1 of
                  Inl e \<Rightarrow> (self, [Encode_call m sentence_1], Inl e)
                | Inr embedding_1 \<Rightarrow>
                    (case encode lib m sentence_2 of
                       Inl e \<Rightarrow>
                         (self, [Encode_call m sentence_1, Encode_call m sentence_2], Inl e)
                     | Inr embedding_2 \<Rightarrow>
                         (case cos_sim lib embedding_1 embedding_2 of
                            Inl e \<Rightarrow>
                              (self,
                               [Encode_call m sentence_1, Encode_call m sentence_2,
                                Cos_sim_call embedding_1 embedding_2],
                               Inl e)
                          | Inr t \<Rightarrow>
                              (self,
                               [Encode_call m sentence_1, Encode_call m sentence_2,
                                Cos_sim_call embedding_1 embedding_2],
                               Inr (np_array (tolist t))))))))"

section \<open>The notebooks as scripts\<close>

text \<open>
  Each notebook is a straight-line script: its code cells run top to bottom. Of a cell only
  the statements that create a model, log it with the tracking client, load it back, or
  run inference are kept; what is printed, the signature and the experiment name do not
  matter to the order of these calls.
\<close>

datatype expr =
    Var string
  | New string

datatype stmt =
    Assign string expr
  | Log_model string expr
  | Load_model string string
  | Derive string string
  | Infer string

text \<open>
  \<^descr> \<open>Assign v e\<close>: \<^verbatim>\<open>v = e\<close>, where \<open>New c\<close> is a call of the library constructor \<open>c\<close>.
  \<^descr> \<open>Log_model info e\<close>: \<^verbatim>\<open>info = mlflow.<flavor>.log_model(e, ...)\<close>.
  \<^descr> \<open>Load_model v info\<close>: \<^verbatim>\<open>v = mlflow.<flavor>.load_model(info.model_uri)\<close>.
  \<^descr> \<open>Derive v w\<close>: \<open>v\<close> is taken out of, or assembled from, the loaded object \<open>w\<close>
    (\<^verbatim>\<open>w["model"]\<close>, \<^verbatim>\<open>transformers.pipeline(**w)\<close>).
  \<^descr> \<open>Infer v\<close>: an inference call on \<open>v\<close> (\<^verbatim>\<open>v.predict(..)\<close>, \<^verbatim>\<open>v.encode(..)\<close>,
    \<^verbatim>\<open>v(..)\<close>, \<^verbatim>\<open>v.generate(..)\<close>).
\<close>

text \<open>
  What a variable holds: a model built by a library constructor, the result of
  \<^verbatim>\<open>log_model\<close> (the \<open>r\<close>-th reference produced), or the \<open>i\<close>-th instance loaded, from
  reference \<open>r\<close>.
\<close>

datatype obj =
    Pretrained
  | Model_info nat
  | Loaded nat nat

datatype event =
    Log nat
  | Load nat nat
  | Infer_native
  | Infer_loaded nat nat

record kernel =
  env :: "string \<rightharpoonup> obj"
  refs :: nat
  insts :: nat

definition fresh :: kernel where
  "fresh = \<lparr>env = Map.empty, refs = 0, insts = 0\<rparr>"

definition NameError :: "string \<Rightarrow> py_exception" where
  "NameError v =
     PyException ''NameError'' (''name '' @ [CHR 0x27] @ v @ [CHR 0x27] @ '' is not defined'')"

definition lookup :: "kernel \<Rightarrow> string \<Rightarrow> py_exception + obj" where
  "lookup k v = (case env k v of None \<Rightarrow> Inl (NameError v) | Some ob \<Rightarrow> Inr ob)"

fun eval :: "kernel \<Rightarrow> expr \<Rightarrow> py_exception + obj" where
  "eval k (Var v) = lookup k v"
| "eval k (New c) = Inr Pretrained"

text \<open>
  One statement: the events it adds and the kernel afterwards. Reading an unbound name
  raises NameError; asking a \<^verbatim>\<open>log_model\<close> result to predict, or anything else for its
  \<^verbatim>\<open>model_uri\<close>, raises AttributeError.
\<close>

fun exec :: "stmt \<Rightarrow> kernel \<Rightarrow> py_exception + (event list \<times> kernel)" where
  "exec (Assign v e) k =
     (case eval k e of
        Inl err \<Rightarrow> Inl err
      | Inr ob \<Rightarrow> Inr ([], k\<lparr>env := (env k)(v \<mapsto> ob)\<rparr>))"
| "exec (Log_model info e) k =
     (case eval k e of
        Inl err \<Rightarrow> Inl err
      | Inr ob \<Rightarrow>
          Inr ([Log (refs k)],
               k\<lparr>env := (env k)(info \<mapsto> Model_info (refs k)), refs := Suc (refs k)\<rparr>))"
| "exec (Load_model v info) k =
     (case lookup k info of
        Inl err \<Rightarrow> Inl err
      | Inr (Model_info r) \<Rightarrow>
          Inr ([Load r (insts k)],
               k\<lparr>env := (env k)(v \<mapsto> Loaded r (insts k)), insts := Suc (insts k)\<rparr>)
      | Inr _ \<Rightarrow> Inl (AttributeError ''model_uri''))"
| "exec (Derive v w) k =
     (case lookup k w of
        Inl err \<Rightarrow> Inl err
      | Inr ob \<Rightarrow> Inr ([], k\<lparr>env := (env k)(v \<mapsto> ob)\<rparr>))"
| "exec (Infer v) k =
     (case lookup k v of
        Inl err \<Rightarrow> Inl err
      | Inr Pretrained \<Rightarrow> Inr ([Infer_native], k)
      | Inr (Loaded r i) \<Rightarrow> Inr ([Infer_loaded r i], k)
      | Inr (Model_info r) \<Rightarrow> Inl (AttributeError ''predict''))"

fun run :: "stmt list \<Rightarrow> kernel \<Rightarrow> py_exception + event list" where
  "run [] k = Inr []"
| "run (c # cs) k =
     (case exec c k of
        Inl err \<Rightarrow> Inl err
      | Inr (evs, k') \<Rightarrow>
          (case run cs k' of Inl err \<Rightarrow> Inl err | Inr rest \<Rightarrow> Inr (evs @ rest)))"

text \<open>
  sentence-transformers-quickstart.ipynb, cells 2 to 8:
  \<^verbatim>\<open>
  model = SentenceTransformer("all-MiniLM-L6-v2")
  signature = mlflow.models.infer_signature(model_input=example_sentences,
                                            model_output=model.encode(example_sentences))
  logged_model = mlflow.sentence_transformers.log_model(model=model, ...)
  loaded_model_pyfunc = mlflow.pyfunc.load_model(logged_model.model_uri)
  embeddings_test = loaded_model_pyfunc.predict(inference_test)
  loaded_model_native = mlflow.sentence_transformers.load_model(logged_model.model_uri)
  native_embeddings = loaded_model_native.encode(inference_test)
  \<close>
\<close>

definition quickstart :: "stmt list" where
  "quickstart =
     [Assign ''model'' (New ''SentenceTransformer''),
      Infer ''model'',
      Log_model ''logged_model'' (Var ''model''),
      Load_model ''loaded_model_pyfunc'' ''logged_model'',
      Infer ''loaded_model_pyfunc'',
      Load_model ''loaded_model_native'' ''logged_model'',
      Infer ''loaded_model_native'']"

text \<open>
  semantic-similarity-sentence-transformers.ipynb, cells 3 to 7:
  \<^verbatim>\<open>
  model = SentenceTransformer("all-MiniLM-L6-v2")
  test_output = np.array(util.cos_sim(model.encode(..), model.encode(..)).tolist())
  model_info = mlflow.pyfunc.log_model("similarity", python_model=SimilarityModel(), ...)
  loaded_dynamic = mlflow.pyfunc.load_model(model_info.model_uri)
  similarity_score = loaded_dynamic.predict(similarity_data)
  low_similarity_score = loaded_dynamic.predict(low_similarity)
  high_similarity_score = loaded_dynamic.predict(high_similarity)
  \<close>
\<close>

definition semantic_similarity :: "stmt list" where
  "semantic_similarity =
     [Assign ''model'' (New ''SentenceTransformer''),
      Infer ''model'',
      Infer ''model'',
      Log_model ''model_info'' (New ''SimilarityModel''),
      Load_model ''loaded_dynamic'' ''model_info'',
      Infer ''loaded_dynamic'',
      Infer ''loaded_dynamic'',
      Infer ''loaded_dynamic'']"

text \<open>
  component-translation.ipynb:
  \<^verbatim>\<open>
  translation_pipeline = transformers.pipeline(task="translation_en_to_fr", ...)
  translation_pipeline("translate English to French: ...")
  signature = mlflow.models.infer_signature(..,
      mlflow.transformers.generate_signature_output(translation_pipeline, ".."), ..)
  model_info = mlflow.transformers.log_model(transformers_model=translation_pipeline, ...)
  translation_components = mlflow.transformers.load_model(model_info.model_uri,
                                                          return_type="components")
  translation_pipeline = mlflow.transformers.load_model(model_info.model_uri)
  response = translation_pipeline("I have heard that Nice is nice this time of year.")
  reconstructed_pipeline = transformers.pipeline(**translation_components)
  reconstructed_response = reconstructed_pipeline("..")
  tokenizer = translation_components["tokenizer"]
  model = translation_components["model"]
  inputs = tokenizer.encode(query, return_tensors="pt").to("mps")
  outputs = model.generate(inputs).to("mps")
  result = tokenizer.decode(outputs[0])
  \<close>
  The name \<^verbatim>\<open>translation_pipeline\<close> is bound twice: to the pipeline built from the
  pretrained model, and later to the pipeline loaded back.
\<close>

definition component_translation :: "stmt list" where
  "component_translation =
     [Assign ''translation_pipeline'' (New ''pipeline''),
      Infer ''translation_pipeline'',
      Infer ''translation_pipeline'',
      Log_model ''model_info'' (Var ''translation_pipeline''),
      Load_model ''translation_components'' ''model_info'',
      Load_model ''translation_pipeline'' ''model_info'',
      Infer ''translation_pipeline'',
      Derive ''reconstructed_pipeline'' ''translation_components'',
      Infer ''reconstructed_pipeline'',
      Derive ''tokenizer'' ''translation_components'',
      Derive ''model'' ''translation_components'',
      Infer ''tokenizer'',
      Infer ''model'',
      Infer ''tokenizer'']"

section \<open>Vocabulary of the properties\<close>

text \<open>A required key is missing from the dictionary, or present with the value None.\<close>

definition missing_or_null :: "(string \<rightharpoonup> pyval) \<Rightarrow> string \<Rightarrow> bool" where
  "missing_or_null d k = (d k = None \<or> d k = Some PyNone)"

text \<open>
  The two designated fields of an input of an accepted shape, in the specification's
  words: the two column values of the first row of a two-column table, or the values
  under the two keys of a dictionary that supplies both; no fields otherwise.
\<close>

fun designated_fields :: "model_input \<Rightarrow> (pyval \<times> pyval) option" where
  "designated_fields (DataFrame df) =
     (case rows df of
        [s1, s2] # rest \<Rightarrow> if length (columns df) = 2 then Some (s1, s2) else None
      | _ \<Rightarrow> None)"
| "designated_fields (Dict d) =
     (case (d ''sentence_1'', d ''sentence_2'') of
        (Some s1, Some s2) \<Rightarrow> if s1 = PyNone \<or> s2 = PyNone then None else Some (s1, s2)
      | _ \<Rightarrow> None)"
| "designated_fields (Other ty) = None"

fun is_cos_sim :: "('m, 'e) call \<Rightarrow> bool" where
  "is_cos_sim (Cos_sim_call a b) = True"
| "is_cos_sim _ = False"

text \<open>
  The order of tracking calls in a trace, given the references logged and the instances
  loaded so far: a load names a reference already logged, and an inference on a loaded
  instance names an instance already loaded, of a reference already logged.
\<close>

fun fixed_order :: "nat list \<Rightarrow> (nat \<times> nat) list \<Rightarrow> event list \<Rightarrow> bool" where
  "fixed_order logged loaded_insts [] = True"
| "fixed_order logged loaded_insts (Log r # es) = fixed_order (r # logged) loaded_insts es"
| "fixed_order logged loaded_insts (Load r i # es) =
     (r \<in> set logged \<and> fixed_order logged ((r, i) # loaded_insts) es)"
| "fixed_order logged loaded_insts (Infer_native # es) = fixed_order logged loaded_insts es"
| "fixed_order logged loaded_insts (Infer_loaded r i # es) =
     (r \<in> set logged \<and> (r, i) \<in> set loaded_insts \<and> fixed_order logged loaded_insts es)"

section \<open>A small library to evaluate the adapter on\<close>

text \<open>
  A stand-in for sentence-transformers with computable results: one stored model (handle
  7) at the path the similarity notebook saves to, embeddings of strings only, and a dot
  product in place of the cosine. It serves to run the adapter on concrete inputs.
\<close>

definition demo_library :: "(nat, int list, int) library" where
  "demo_library =
     \<lparr> SentenceTransformer_load =
         (\<lambda>path. if path = ''/tmp/sbert_model'' then Inr 7
                 else Inl (PyException ''FileNotFoundError'' path)),
       encode =
         (\<lambda>m s. case s of
                   PyStr t \<Rightarrow> Inr [int (length t), int m]
                 | _ \<Rightarrow> Inl (TypeError ''expected str'')),
       cos_sim = (\<lambda>a b. Inr (Tensor [[sum_list (map2 (*) a b)]])) \<rparr>"

definition unloaded :: "nat SimilarityModel" where
  "unloaded = \<lparr> model = None \<rparr>"

definition loaded :: "nat SimilarityModel" where
  "loaded = \<lparr> model = Some 7 \<rparr>"



text \<open>The dictionary and the one-row table of the notebook's example sentences.\<close>

definition apples :: "string \<rightharpoonup> pyval" where
  "apples = [''sentence_1'' \<mapsto> PyStr ''I like apples'',
             ''sentence_2'' \<mapsto> PyStr ''I like oranges'']"

definition input_example :: frame where
  "input_example =
     \<lparr>columns = [''sentence_1'', ''sentence_2''],
      rows = [[PyStr ''I like apples'', PyStr ''I like oranges'']]\<rparr>"

text \<open>Inputs outside the accepted shapes, and one with a key too many.\<close>

definition empty_frame :: frame where
  "empty_frame = \<lparr>columns = [''sentence_1'', ''sentence_2''], rows = []\<rparr>"

definition three_columns :: frame where
  "three_columns =
     \<lparr>columns = [''sentence_1'', ''sentence_2'', ''sentence_3''],
      rows = [[PyStr ''a'', PyStr ''b'', PyStr ''c'']]\<rparr>"

definition only_first :: "string \<rightharpoonup> pyval" where
  "only_first = [''sentence_1'' \<mapsto> PyStr ''abc'']"

definition three_keys :: "string \<rightharpoonup> pyval" where
  "three_keys = [''sentence_1'' \<mapsto> PyStr ''a'', ''sentence_2'' \<mapsto> PyStr ''b'',
                 ''sentence_3'' \<mapsto> PyStr ''c'']"

definition number_first :: "string \<rightharpoonup> pyval" where
  "number_first = [''sentence_1'' \<mapsto> PyInt 0, ''sentence_2'' \<mapsto> PyStr ''b'']"

definition same_sentences :: "string \<rightharpoonup> pyval" where
  "same_sentences = [''sentence_1'' \<mapsto> PyStr ''I like apples'',
                     ''sentence_2'' \<mapsto> PyStr ''I like apples'']"



text \<open>
  A library with scores that are numbers: the similarity of two equal embeddings is
  \<open>peak\<close>, of two different ones 0. With \<open>peak = 1 + 1 / 2 ^ 23\<close>, the single precision
  number next above 1 (printed 1.0000001192092896), it behaves as a cosine computed in
  floating point can on a sentence compared with itself.
\<close>

definition scoring_library :: "real \<Rightarrow> (nat, int list, real) library" where
  "scoring_library peak =
     \<lparr> SentenceTransformer_load = SentenceTransformer_load demo_library,
       encode = encode demo_library,
       cos_sim = (\<lambda>a b. Inr (Tensor [[if a = b then peak else 0]])) \<rparr>"

text \<open>Every entry of a nested list of scores lies between -1 and 1.\<close>

definition in_unit_range :: "('f::linordered_idom) list list \<Rightarrow> bool" where
  "in_unit_range xss = list_all (list_all (\<lambda>v. - 1 \<le> v \<and> v \<le> 1)) xss"

text \<open>Loading contexts: the notebook's artifacts, none at all, and a path with nothing stored.\<close>

definition saved_model :: PythonModelContext where
  "saved_model = \<lparr>artifacts = [''model_path'' \<mapsto> ''/tmp/sbert_model'']\<rparr>"

definition no_artifacts :: PythonModelContext where
  "no_artifacts = \<lparr>artifacts = Map.empty\<rparr>"

definition wrong_path :: PythonModelContext where
  "wrong_path = \<lparr>artifacts = [''model_path'' \<mapsto> ''/tmp/missing'']\<rparr>"

section \<open>Properties of the adapter\<close>

lemma show_nat_0: "show_nat 0 = ''0''"
  by (simp add: show_nat.simps)

lemma get_None_iff: "get d k = PyNone \<longleftrightarrow> missing_or_null d k"
  by (auto simp: get_def missing_or_null_def split: option.splits)

text \<open>
  What \<^verbatim>\<open>predict\<close> does on an input with designated fields, once the model is loaded and
  both embedding calls return: three library calls, and the outcome of the third, its
  tensor turned into an array.
\<close>

lemma predict_fields:
  assumes "designated_fields x = Some (s1, s2)" "model self = Some m"
    "encode lib m s1 = Inr e1" "encode lib m s2 = Inr e2"
  shows "predict lib self x =
     (self, [Encode_call m s1, Encode_call m s2, Cos_sim_call e1 e2],
      map_sum id (\<lambda>t. np_array (tolist t)) (cos_sim lib e1 e2))"
proof (cases x)
  case (DataFrame df)
  with assms(1) obtain rest where "rows df = [s1, s2] # rest" "length (columns df) = 2"
    by (auto split: list.splits if_splits)
  with DataFrame assms(2-) show ?thesis
    by (simp add: predict_def shape_def iloc_def split: sum.splits)
next
  case (Dict d)
  with assms(1) have "get d ''sentence_1'' = s1" "get d ''sentence_2'' = s2"
      "s1 \<noteq> PyNone" "s2 \<noteq> PyNone"
    by (auto simp: get_def split: option.splits if_splits)
  with Dict assms(2-) show ?thesis
    by (simp add: predict_def Let_def split: sum.splits)
next
  case (Other ty)
  with assms(1) show ?thesis by simp
qed

lemma predict_calls_nonempty:
  assumes "fst (snd (predict lib self x)) \<noteq> []"
  shows "(\<forall>df. x = DataFrame df \<longrightarrow> snd (shape df) = 2 \<and> rows df \<noteq> [])
       \<and> (\<forall>d. x = Dict d \<longrightarrow>
             \<not> missing_or_null d ''sentence_1'' \<and> \<not> missing_or_null d ''sentence_2'')
       \<and> (\<forall>ty. x \<noteq> Other ty)"
  using assms
  by (cases x) (auto simp: predict_def shape_def iloc_def Let_def get_None_iff
                 split: if_splits sum.splits option.splits)

text \<open>The adapter on the notebook's example sentences, with the small library.\<close>

lemma designated_fields_examples:
  "designated_fields (DataFrame input_example)
     = Some (PyStr ''I like apples'', PyStr ''I like oranges'')"
  "designated_fields (Dict apples) = Some (PyStr ''I like apples'', PyStr ''I like oranges'')"
  by (simp_all add: input_example_def apples_def)

lemma demo_encode:
  "encode demo_library 7 (PyStr ''I like apples'') = Inr [13, 7]"
  "encode demo_library 7 (PyStr ''I like oranges'') = Inr [14, 7]"
  by (simp_all add: demo_library_def)

lemma demo_cos_sim: "cos_sim demo_library [13, 7] [14, 7] = Inr (Tensor [[231]])"
  by (simp add: demo_library_def)

lemma demo_calls:
  "fst (snd (predict demo_library loaded (DataFrame input_example))) \<noteq> []"
  "fst (snd (predict demo_library loaded (Dict apples))) \<noteq> []"
  using predict_fields [OF designated_fields_examples(1) _ demo_encode, of loaded]
    predict_fields [OF designated_fields_examples(2) _ demo_encode, of loaded]
  by (simp_all add: loaded_def)

text \<open>
  C1, as amended. On an adapter whose model handle is loaded, and with both embedding
  calls returning: for a DataFrame with exactly two columns and a first row, and for a
  dictionary with non-None values under \<^verbatim>\<open>sentence_1\<close> and \<^verbatim>\<open>sentence_2\<close>,
  \<^verbatim>\<open>predict\<close> passes the first row's two cells, or the two values, unchanged to the
  embedding call, and the two embeddings to the cosine-similarity call.
\<close>

theorem predict_forwards_fields:
  assumes "model self = Some m" "encode lib m s1 = Inr e1" "encode lib m s2 = Inr e2"
  shows "fst (snd (predict lib self (DataFrame \<lparr>columns = [c1, c2], rows = [s1, s2] # rest\<rparr>)))
           = [Encode_call m s1, Encode_call m s2, Cos_sim_call e1 e2]
       \<and> (d ''sentence_1'' = Some s1 \<and> d ''sentence_2'' = Some s2
            \<and> s1 \<noteq> PyNone \<and> s2 \<noteq> PyNone \<longrightarrow>
           fst (snd (predict lib self (Dict d)))
             = [Encode_call m s1, Encode_call m s2, Cos_sim_call e1 e2])"
  using assms by (simp add: predict_fields)

theorem predict_forwards_fields_witness:
  "model loaded = Some 7
   \<and> encode demo_library 7 (PyStr ''I like apples'') = Inr [13, 7]
   \<and> encode demo_library 7 (PyStr ''I like oranges'') = Inr [14, 7]
   \<and> apples ''sentence_1'' = Some (PyStr ''I like apples'')
   \<and> apples ''sentence_2'' = Some (PyStr ''I like oranges'')
   \<and> fst (snd (predict demo_library loaded (DataFrame input_example)))
        = [Encode_call 7 (PyStr ''I like apples''), Encode_call 7 (PyStr ''I like oranges''),
           Cos_sim_call [13, 7] [14, 7]]
   \<and> fst (snd (predict demo_library loaded (Dict apples)))
        = [Encode_call 7 (PyStr ''I like apples''), Encode_call 7 (PyStr ''I like oranges''),
           Cos_sim_call [13, 7] [14, 7]]"
  using predict_forwards_fields [of loaded 7 demo_library "PyStr ''I like apples''" "[13, 7]"
      "PyStr ''I like oranges''" "[14, 7]" "''sentence_1''" "''sentence_2''" "[]" apples]
  by (simp add: loaded_def demo_library_def apples_def input_example_def)

text \<open>
  C1 as stated fails on a DataFrame with exactly two columns and no row: the adapter is
  loaded, the column count is two, and \<^verbatim>\<open>predict\<close> raises IndexError at
  \<^verbatim>\<open>iloc[0, 0]\<close> with nothing forwarded to the library.
\<close>

theorem predict_forwards_fields_counterexample:
  "snd (shape empty_frame) = 2
   \<and> model loaded = Some 7
   \<and> predict demo_library loaded (DataFrame empty_frame) =
       (loaded, [], Inl (IndexError ''index 0 is out of bounds for axis 0 with size 0''))"
  by (simp add: predict_def shape_def iloc_def out_of_bounds_def show_nat_0 empty_frame_def
      loaded_def)

text \<open>
  C2. A dictionary in which one of the two required keys \<^verbatim>\<open>sentence_1\<close>,
  \<^verbatim>\<open>sentence_2\<close> is missing or None, and an input that is neither a DataFrame nor a
  dictionary, make \<^verbatim>\<open>predict\<close> raise (ValueError, TypeError) with no call into the
  library made: no embedding call and no similarity call.
\<close>

theorem predict_rejects_before_model:
  "(missing_or_null d ''sentence_1'' \<or> missing_or_null d ''sentence_2'' \<longrightarrow>
      predict lib self (Dict d) =
        (self, [], Inl (ValueError
           ''Both 'sentence_1' and 'sentence_2' must be provided in the input dictionary.'')))
   \<and> predict lib self (Other ty) =
        (self, [], Inl (TypeError (''Unexpected type for model_input: <class ''
                    @ [CHR 0x27] @ ty @ [CHR 0x27]
                    @ ''>. Must be either a Dict or a DataFrame.'')))"
  by (simp add: predict_def get_None_iff Let_def)

theorem predict_rejects_before_model_witness:
  "missing_or_null only_first ''sentence_2''
   \<and> predict demo_library loaded (Dict only_first) =
        (loaded, [], Inl (ValueError
           ''Both 'sentence_1' and 'sentence_2' must be provided in the input dictionary.''))"
  using predict_rejects_before_model [of only_first demo_library loaded]
  by (simp add: missing_or_null_def only_first_def)

text \<open>
  C3. When the lookup of \<^verbatim>\<open>model_path\<close> among the artifacts or the library's load call
  raises, \<^verbatim>\<open>load_context\<close> raises a ValueError whose message is
  \<^verbatim>\<open>Error loading model: \<close> followed by the text of the underlying exception, and the
  instance is as before; when the load returns a model, the instance's \<^verbatim>\<open>model\<close> is
  that model.
\<close>

theorem load_context_wraps_failure:
  "(artifacts ctx ''model_path'' = None \<longrightarrow>
      load_context lib self ctx =
        (self, [],
         Inl (ValueError (''Error loading model: '' @ exc_str (KeyError ''model_path'')))))
   \<and> (artifacts ctx ''model_path'' = Some path \<and> SentenceTransformer_load lib path = Inl e \<longrightarrow>
      load_context lib self ctx =
        (self, [Load_call path], Inl (ValueError (''Error loading model: '' @ exc_str e))))
   \<and> (artifacts ctx ''model_path'' = Some path \<and> SentenceTransformer_load lib path = Inr m \<longrightarrow>
      load_context lib self ctx = (self\<lparr>model := Some m\<rparr>, [Load_call path], Inr ()))"
  by (simp add: load_context_def)

theorem load_context_wraps_failure_witness:
  "artifacts no_artifacts ''model_path'' = None
   \<and> load_context demo_library unloaded no_artifacts =
       (unloaded, [], Inl (ValueError (''Error loading model: '' @ CHR 0x27 # ''model_path'' @ [CHR 0x27])))
   \<and> artifacts wrong_path ''model_path'' = Some ''/tmp/missing''
   \<and> SentenceTransformer_load demo_library ''/tmp/missing''
       = Inl (PyException ''FileNotFoundError'' ''/tmp/missing'')
   \<and> load_context demo_library unloaded wrong_path =
       (unloaded, [Load_call ''/tmp/missing''],
        Inl (ValueError ''Error loading model: /tmp/missing''))
   \<and> artifacts saved_model ''model_path'' = Some ''/tmp/sbert_model''
   \<and> SentenceTransformer_load demo_library ''/tmp/sbert_model'' = Inr 7
   \<and> load_context demo_library unloaded saved_model =
       (loaded, [Load_call ''/tmp/sbert_model''], Inr ())"
  using load_context_wraps_failure [where ctx = no_artifacts and lib = demo_library
      and self = unloaded]
    load_context_wraps_failure [where ctx = wrong_path and lib = demo_library
      and self = unloaded and path = "''/tmp/missing''"
      and e = "PyException ''FileNotFoundError'' ''/tmp/missing''"]
    load_context_wraps_failure [where ctx = saved_model and lib = demo_library
      and self = unloaded and path = "''/tmp/sbert_model''" and m = 7]
  by (simp add: no_artifacts_def wrong_path_def saved_model_def demo_library_def KeyError_def
      unloaded_def loaded_def)

text \<open>
  C4, as amended. For every input with designated fields (a two-column table with a
  first row, a dictionary supplying both keys), on an adapter whose model handle is
  loaded and with both embedding calls returning, \<^verbatim>\<open>predict\<close> makes exactly one call of
  the library's cosine similarity, on the embeddings of the two fields, and its outcome
  is that call's: the exception the call raised, or the entries of the tensor the call
  returned, as an array.
\<close>

theorem predict_single_cos_sim:
  assumes "designated_fields x = Some (s1, s2)" "model self = Some m"
    "encode lib m s1 = Inr e1" "encode lib m s2 = Inr e2"
  shows "filter is_cos_sim (fst (snd (predict lib self x))) = [Cos_sim_call e1 e2]
       \<and> snd (snd (predict lib self x))
           = map_sum id (\<lambda>t. np_array (tolist t)) (cos_sim lib e1 e2)"
  using assms by (simp add: predict_fields)

theorem predict_single_cos_sim_witness:
  "designated_fields (Dict apples) = Some (PyStr ''I like apples'', PyStr ''I like oranges'')
   \<and> model loaded = Some 7
   \<and> encode demo_library 7 (PyStr ''I like apples'') = Inr [13, 7]
   \<and> encode demo_library 7 (PyStr ''I like oranges'') = Inr [14, 7]
   \<and> cos_sim demo_library [13, 7] [14, 7] = Inr (Tensor [[231]])
   \<and> filter is_cos_sim (fst (snd (predict demo_library loaded (Dict apples))))
        = [Cos_sim_call [13, 7] [14, 7]]
   \<and> snd (snd (predict demo_library loaded (Dict apples))) = Inr (np_array [[231]])"
  using predict_single_cos_sim [OF designated_fields_examples(2) _ demo_encode, of loaded]
    designated_fields_examples(2) demo_encode demo_cos_sim
  by (simp add: loaded_def del: designated_fields.simps)

text \<open>
  C4 as stated fails on inputs that pass the validation: on an instance that was never
  loaded \<^verbatim>\<open>predict\<close> raises AttributeError with no library call, and when the first
  embedding call raises (here on a number in place of a sentence) the exception comes
  out of \<^verbatim>\<open>predict\<close> after that one call. Neither makes a cosine-similarity call.
\<close>

theorem predict_single_cos_sim_counterexample:
  "designated_fields (Dict apples) = Some (PyStr ''I like apples'', PyStr ''I like oranges'')
   \<and> predict demo_library unloaded (Dict apples) =
       (unloaded, [],
        Inl (AttributeError (CHR 0x27 # ''SimilarityModel'' @ [CHR 0x27]
               @ '' object has no attribute '' @ [CHR 0x27] @ ''model'' @ [CHR 0x27])))
   \<and> designated_fields (Dict number_first) = Some (PyInt 0, PyStr ''b'')
   \<and> predict demo_library loaded (Dict number_first) =
       (loaded, [Encode_call 7 (PyInt 0)], Inl (TypeError ''expected str''))
   \<and> filter is_cos_sim (fst (snd (predict demo_library unloaded (Dict apples)))) = []
   \<and> filter is_cos_sim (fst (snd (predict demo_library loaded (Dict number_first)))) = []"
  by (simp add: predict_def get_def apples_def number_first_def unloaded_def loaded_def
      demo_library_def)

text \<open>
  C5, as amended. A table whose column count is not two, and a dictionary in which
  \<^verbatim>\<open>sentence_1\<close> or \<^verbatim>\<open>sentence_2\<close> is missing or None, are rejected with a ValueError
  before any library call. A table reaches the library only if it has exactly two
  columns, a dictionary only if it supplies non-None values under both keys; how many
  other keys the dictionary has plays no part.
\<close>

theorem predict_validation:
  "(snd (shape df) \<noteq> 2 \<longrightarrow>
      predict lib self (DataFrame df) =
        (self, [], Inl (ValueError ''DataFrame input must have exactly two columns.'')))
   \<and> (missing_or_null d ''sentence_1'' \<or> missing_or_null d ''sentence_2'' \<longrightarrow>
      predict lib self (Dict d) =
        (self, [], Inl (ValueError
           ''Both 'sentence_1' and 'sentence_2' must be provided in the input dictionary.'')))
   \<and> (fst (snd (predict lib self (DataFrame df))) \<noteq> [] \<longrightarrow> snd (shape df) = 2)
   \<and> (fst (snd (predict lib self (Dict d))) \<noteq> [] \<longrightarrow>
        \<not> missing_or_null d ''sentence_1'' \<and> \<not> missing_or_null d ''sentence_2'')"
proof (intro conjI impI)
  assume "snd (shape df) \<noteq> 2"
  then show "predict lib self (DataFrame df) =
        (self, [], Inl (ValueError ''DataFrame input must have exactly two columns.''))"
    by (simp add: predict_def)
next
  assume "missing_or_null d ''sentence_1'' \<or> missing_or_null d ''sentence_2''"
  then show "predict lib self (Dict d) =
        (self, [], Inl (ValueError
           ''Both 'sentence_1' and 'sentence_2' must be provided in the input dictionary.''))"
    by (simp add: predict_def get_None_iff Let_def)
next
  assume "fst (snd (predict lib self (DataFrame df))) \<noteq> []"
  from predict_calls_nonempty [OF this] show "snd (shape df) = 2" by simp
next
  assume a: "fst (snd (predict lib self (Dict d))) \<noteq> []"
  from predict_calls_nonempty [OF a] show "\<not> missing_or_null d ''sentence_1''" by simp
  from predict_calls_nonempty [OF a] show "\<not> missing_or_null d ''sentence_2''" by simp
qed

theorem predict_validation_witness:
  "snd (shape three_columns) \<noteq> 2
   \<and> predict demo_library loaded (DataFrame three_columns) =
       (loaded, [], Inl (ValueError ''DataFrame input must have exactly two columns.''))
   \<and> missing_or_null only_first ''sentence_2''
   \<and> predict demo_library loaded (Dict only_first) =
       (loaded, [], Inl (ValueError
          ''Both 'sentence_1' and 'sentence_2' must be provided in the input dictionary.''))
   \<and> fst (snd (predict demo_library loaded (DataFrame input_example))) \<noteq> []
   \<and> snd (shape input_example) = 2
   \<and> fst (snd (predict demo_library loaded (Dict apples))) \<noteq> []
   \<and> \<not> missing_or_null apples ''sentence_1''
   \<and> \<not> missing_or_null apples ''sentence_2''"
proof -
  have cols: "snd (shape three_columns) \<noteq> 2"
    by (simp add: shape_def three_columns_def)
  have key: "missing_or_null only_first ''sentence_2''"
    by (simp add: missing_or_null_def only_first_def)
  note rejected = predict_validation [of three_columns demo_library loaded only_first]
  note accepted = predict_validation [of input_example demo_library loaded apples]
  note table = accepted [THEN conjunct2, THEN conjunct2, THEN conjunct1, THEN mp,
      OF demo_calls(1)]
  note dict = accepted [THEN conjunct2, THEN conjunct2, THEN conjunct2, THEN mp,
      OF demo_calls(2)]
  show ?thesis
  proof (intro conjI)
    show "predict demo_library loaded (DataFrame three_columns) =
       (loaded, [], Inl (ValueError ''DataFrame input must have exactly two columns.''))"
      by (rule rejected [THEN conjunct1, THEN mp, OF cols])
    show "predict demo_library loaded (Dict only_first) =
       (loaded, [], Inl (ValueError
          ''Both 'sentence_1' and 'sentence_2' must be provided in the input dictionary.''))"
      by (rule rejected [THEN conjunct2, THEN conjunct1, THEN mp, OF disjI2 [OF key]])
    show "\<not> missing_or_null apples ''sentence_1''"
      by (rule dict [THEN conjunct1])
    show "\<not> missing_or_null apples ''sentence_2''"
      by (rule dict [THEN conjunct2])
  qed (fact cols key demo_calls table)+
qed

text \<open>
  C5 as stated fails on a dictionary with three keys: it is not a two-key mapping, and
  \<^verbatim>\<open>predict\<close> accepts it, reads the two required keys and returns a score.
\<close>

theorem predict_validation_counterexample:
  "dom three_keys = {''sentence_1'', ''sentence_2'', ''sentence_3''}
   \<and> card (dom three_keys) = 3
   \<and> predict demo_library loaded (Dict three_keys) =
       (loaded,
        [Encode_call 7 (PyStr ''a''), Encode_call 7 (PyStr ''b''), Cos_sim_call [1, 7] [1, 7]],
        Inr (np_array [[50]]))"
  by (auto simp add: predict_def three_keys_def get_def loaded_def demo_library_def)





text \<open>
  C7. Each of the three notebooks runs through without reading an unbound name, and in
  the trace of its tracking calls every load names a reference that an earlier
  \<^verbatim>\<open>log_model\<close> produced, and every inference on a loaded instance comes after the load
  that produced the instance, hence after the logging of its reference.
\<close>

theorem notebooks_fixed_order:
  "run quickstart fresh
     = Inr [Infer_native, Log 0, Load 0 0, Infer_loaded 0 0, Load 0 1, Infer_loaded 0 1]
   \<and> fixed_order [] []
       [Infer_native, Log 0, Load 0 0, Infer_loaded 0 0, Load 0 1, Infer_loaded 0 1]
   \<and> run semantic_similarity fresh
     = Inr [Infer_native, Infer_native, Log 0, Load 0 0,
            Infer_loaded 0 0, Infer_loaded 0 0, Infer_loaded 0 0]
   \<and> fixed_order [] []
       [Infer_native, Infer_native, Log 0, Load 0 0,
        Infer_loaded 0 0, Infer_loaded 0 0, Infer_loaded 0 0]
   \<and> run component_translation fresh
     = Inr [Infer_native, Infer_native, Log 0, Load 0 0, Load 0 1, Infer_loaded 0 1,
            Infer_loaded 0 0, Infer_loaded 0 0, Infer_loaded 0 0, Infer_loaded 0 0]
   \<and> fixed_order [] []
       [Infer_native, Infer_native, Log 0, Load 0 0, Load 0 1, Infer_loaded 0 1,
        Infer_loaded 0 0, Infer_loaded 0 0, Infer_loaded 0 0, Infer_loaded 0 0]"
proof (intro conjI)
  show "run quickstart fresh
     = Inr [Infer_native, Log 0, Load 0 0, Infer_loaded 0 0, Load 0 1, Infer_loaded 0 1]"
    by (simp add: quickstart_def fresh_def lookup_def)
  show "run semantic_similarity fresh
     = Inr [Infer_native, Infer_native, Log 0, Load 0 0,
            Infer_loaded 0 0, Infer_loaded 0 0, Infer_loaded 0 0]"
    by (simp add: semantic_similarity_def fresh_def lookup_def)
  show "run component_translation fresh
     = Inr [Infer_native, Infer_native, Log 0, Load 0 0, Load 0 1, Infer_loaded 0 1,
            Infer_loaded 0 0, Infer_loaded 0 0, Infer_loaded 0 0, Infer_loaded 0 0]"
    by (simp add: component_translation_def fresh_def lookup_def)
qed simp_all

lemma predict_returns:
  assumes "snd (snd (predict lib self x)) = Inr r"
  shows "\<exists>m s1 s2 e1 e2 t.
           fst (snd (predict lib self x))
             = [Encode_call m s1, Encode_call m s2, Cos_sim_call e1 e2]
           \<and> cos_sim lib e1 e2 = Inr t \<and> r = np_array (tolist t)"
  using assms
  by (cases x)
    (auto simp: predict_def Let_def split: if_splits sum.splits option.splits prod.splits)

lemma scoring_predict:
  "predict (scoring_library peak) loaded (Dict same_sentences) =
     (loaded,
      [Encode_call 7 (PyStr ''I like apples''), Encode_call 7 (PyStr ''I like apples''),
       Cos_sim_call [13, 7] [13, 7]],
      Inr (np_array [[peak]]))"
proof -
  have "designated_fields (Dict same_sentences)
          = Some (PyStr ''I like apples'', PyStr ''I like apples'')"
    by (simp add: same_sentences_def)
  moreover have "model loaded = Some 7"
    by (simp add: loaded_def)
  moreover have "encode (scoring_library peak) 7 (PyStr ''I like apples'') = Inr [13, 7]"
    by (simp add: scoring_library_def demo_library_def)
  ultimately show ?thesis
    by (simp add: predict_fields scoring_library_def del: designated_fields.simps)
qed

text \<open>
  C8, as amended. Every score that \<^verbatim>\<open>predict\<close> returns is an entry of the tensor that
  its one cosine-similarity call returned, unchanged: \<^verbatim>\<open>predict\<close> neither clamps nor
  rounds. So the scores lie in the interval from -1 to 1 whenever the entries of the
  tensors the library's cosine similarity returns do.
\<close>

theorem predict_score_bounds:
  fixes lib :: "('m, 'e, 'f::linordered_idom) library"
  assumes "snd (snd (predict lib self x)) = Inr r"
  shows "(\<exists>e1 e2 t. filter is_cos_sim (fst (snd (predict lib self x))) = [Cos_sim_call e1 e2]
            \<and> cos_sim lib e1 e2 = Inr t \<and> entries r = tolist t)
       \<and> ((\<forall>e1 e2 t. cos_sim lib e1 e2 = Inr t \<longrightarrow> in_unit_range (tolist t))
            \<longrightarrow> in_unit_range (entries r))"
proof -
  from predict_returns [OF assms] obtain m s1 s2 e1 e2 t where
    calls: "fst (snd (predict lib self x))
              = [Encode_call m s1, Encode_call m s2, Cos_sim_call e1 e2]"
    and t: "cos_sim lib e1 e2 = Inr t" and r: "r = np_array (tolist t)"
    by blast
  from calls have "filter is_cos_sim (fst (snd (predict lib self x))) = [Cos_sim_call e1 e2]"
    by simp
  with t r show ?thesis by auto
qed

theorem predict_score_bounds_witness:
  "snd (snd (predict (scoring_library 1) loaded (Dict same_sentences))) = Inr (np_array [[1]])
   \<and> filter is_cos_sim (fst (snd (predict (scoring_library 1) loaded (Dict same_sentences))))
       = [Cos_sim_call [13, 7] [13, 7]]
   \<and> cos_sim (scoring_library 1) [13, 7] [13, 7] = Inr (Tensor [[1]])
   \<and> in_unit_range (entries (np_array [[1::real]]))"
proof -
  have returned:
    "snd (snd (predict (scoring_library 1) loaded (Dict same_sentences))) = Inr (np_array [[1]])"
    by (simp add: scoring_predict)
  have library: "\<forall>e1 e2 t. cos_sim (scoring_library 1) e1 e2 = Inr t \<longrightarrow> in_unit_range (tolist t)"
    by (auto simp: scoring_library_def in_unit_range_def)
  from predict_score_bounds [OF returned, THEN conjunct2, THEN mp, OF library]
  have "in_unit_range (entries (np_array [[1::real]]))" .
  moreover have "cos_sim (scoring_library 1) [13, 7] [13, 7] = Inr (Tensor [[1]])"
    by (simp add: scoring_library_def)
  ultimately show ?thesis
    using returned by (simp add: scoring_predict)
qed

text \<open>
  C8 as stated fails when the library's cosine similarity, computed in floating point,
  returns the number next above 1 for a sentence compared with itself: \<^verbatim>\<open>predict\<close>
  returns that number as it is.
\<close>

theorem predict_score_bounds_counterexample:
  "predict (scoring_library (8388609 / 8388608)) loaded (Dict same_sentences) =
     (loaded,
      [Encode_call 7 (PyStr ''I like apples''), Encode_call 7 (PyStr ''I like apples''),
       Cos_sim_call [13, 7] [13, 7]],
      Inr (np_array [[8388609 / 8388608]]))
   \<and> \<not> in_unit_range (entries (np_array [[8388609 / 8388608 :: real]]))
   \<and> (8388609 / 8388608 :: real) = 1 + 1 / 2 ^ 23"
  by (simp add: scoring_predict in_unit_range_def)

text \<open>
  C9. On a DataFrame \<^verbatim>\<open>predict\<close> reads the first row only: replacing the rows after the
  first changes neither the calls made nor the outcome. A DataFrame with two columns and
  no row passes the column count check and then raises IndexError at \<^verbatim>\<open>iloc[0, 0]\<close>,
  not the ValueError of the validation.
\<close>

theorem predict_first_row_only:
  "predict lib self (DataFrame \<lparr>columns = cs, rows = r # rest\<rparr>)
     = predict lib self (DataFrame \<lparr>columns = cs, rows = r # rest'\<rparr>)
   \<and> (length cs = 2 \<longrightarrow>
        predict lib self (DataFrame \<lparr>columns = cs, rows = []\<rparr>)
          = (self, [], Inl (IndexError ''index 0 is out of bounds for axis 0 with size 0'')))"
  by (simp add: predict_def shape_def iloc_def out_of_bounds_def show_nat_0)

theorem predict_first_row_only_witness:
  "length [''sentence_1'', ''sentence_2''] = 2
   \<and> predict demo_library loaded
        (DataFrame \<lparr>columns = [''sentence_1'', ''sentence_2''], rows = []\<rparr>)
       = (loaded, [], Inl (IndexError ''index 0 is out of bounds for axis 0 with size 0''))
   \<and> predict demo_library loaded
        (DataFrame \<lparr>columns = [''sentence_1'', ''sentence_2''],
                    rows = [[PyStr ''I like apples'', PyStr ''I like oranges''],
                            [PyStr ''a'', PyStr ''b'']]\<rparr>)
       = predict demo_library loaded (DataFrame input_example)"
  using predict_first_row_only [of demo_library loaded "[''sentence_1'', ''sentence_2'']"
      "[PyStr ''I like apples'', PyStr ''I like oranges'']" "[[PyStr ''a'', PyStr ''b'']]" "[]"]
  by (simp add: input_example_def)

text \<open>
  C10. \<^verbatim>\<open>predict\<close> returns the instance as it received it, whatever the input and
  whether it raises or not. \<^verbatim>\<open>load_context\<close> changes at most the \<^verbatim>\<open>model\<close> attribute:
  the instance afterwards is the instance before with some value of \<^verbatim>\<open>model\<close>.
\<close>

theorem predict_preserves_state:
  "fst (predict lib self x) = self
   \<and> (\<exists>h. fst (load_context lib self ctx) = self\<lparr>model := h\<rparr>)"
proof
  show "fst (predict lib self x) = self"
    by (simp add: predict_def split: sum.splits option.splits prod.splits)
  show "\<exists>h. fst (load_context lib self ctx) = self\<lparr>model := h\<rparr>"
  proof (cases "snd (snd (load_context lib self ctx))")
    case (Inl e)
    then have "fst (load_context lib self ctx) = self\<lparr>model := model self\<rparr>"
      by (auto simp: load_context_def split: option.splits sum.splits)
    then show ?thesis ..
  next
    case (Inr u)
    then obtain m where "fst (load_context lib self ctx) = self\<lparr>model := Some m\<rparr>"
      by (auto simp: load_context_def split: option.splits sum.splits)
    then show ?thesis ..
  qed
qed

end
